theory Spec2Isabelle
  imports Main "HOL-Library.Sublist" "HOL-Library.Char_ord" "HOL-Library.List_Lexorder"
begin

section \<open>Data model\<close>

text \<open>
  The dashboard script \<^verbatim>\<open>app.py\<close> keeps one pandas table \<^verbatim>\<open>df\<close>. A cell of that table
  is a missing value (\<open>NaN\<close>), a missing timestamp (\<open>NaT\<close>), a text, a whole number or a
  timestamp. Timestamps count nanoseconds, the resolution pandas stores them in; whether
  the dates of a column carry a time zone is told for the column as a whole (\<open>tz_aware\<close>
  below). Fractional and boolean cells are not modelled.
\<close>

datatype cell = NaN | NaT | Str string | Num int | Stamp int

text \<open>
  A row gives the cell under every column name; which names are columns of the table is
  recorded by \<open>columns\<close>, in their order. Every row carries its index label, which row
  filtering keeps.
\<close>

type_synonym row = "string \<Rightarrow> cell"

record frame =
  columns :: "string list"
  rows :: "(nat \<times> row) list"

datatype error = AttributeError | KeyError | TypeError | OverflowError

text \<open>
  What the script takes from the pandas library without fixing it itself: the date parser
  behind \<^verbatim>\<open>pd.to_datetime(..., errors="coerce")\<close>, and the text pandas prints for a row
  outside the plain layout modelled by \<open>series_text\<close> below. The parser is given the whole
  column (pandas may settle on one date format for it) and the cell to parse; it is
  consulted for text and numbers only, and \<open>None\<close> is a value that does not parse.
  \<open>tz_aware\<close> tells of a column whether its parsed dates come out with a time zone
  attached (as they do when the texts carry a UTC offset).
\<close>

record pandas =
  to_datetime :: "cell list \<Rightarrow> cell \<Rightarrow> int option"
  tz_aware :: "cell list \<Rightarrow> bool"
  other_text :: "nat \<Rightarrow> (string \<times> cell) list \<Rightarrow> string"

fun isna :: "cell \<Rightarrow> bool" where
  "isna NaN = True"
| "isna NaT = True"
| "isna _ = False"

text \<open>\<^verbatim>\<open>df[c]\<close>: the cells of column \<open>c\<close>, top to bottom.\<close>

definition column :: "string \<Rightarrow> frame \<Rightarrow> cell list" where
  "column c df = map (\<lambda>(i, r). r c) (rows df)"

text \<open>
  \<^verbatim>\<open>df[c] = ...\<close> with a value computed row by row: an existing column is replaced where it
  stands, a new one is appended on the right. Row order and index labels stay.
\<close>

definition assign :: "string \<Rightarrow> (row \<Rightarrow> cell) \<Rightarrow> frame \<Rightarrow> frame" where
  "assign c f df =
     \<lparr>columns = (if c \<in> set (columns df) then columns df else columns df @ [c]),
      rows = map (\<lambda>(i, r). (i, r(c := f r))) (rows df)\<rparr>"

section \<open>Enrichment (lines 41 to 58)\<close>

subsection \<open>Department\<close>

definition codes :: "string list" where
  "codes = [''PRO'', ''SEM'', ''STU'', ''DCE'', ''SOE'']"

text \<open>
  \<^verbatim>\<open>.str.extract(r"^(PRO|SEM|STU|DCE|SOE)")\<close> on one cell: the first alternative that the
  text starts with; a cell that is not text, or matches none, gives \<open>NaN\<close>.
\<close>

definition str_extract :: "cell \<Rightarrow> cell" where
  "str_extract c =
     (case c of
        Str s \<Rightarrow> (case find (\<lambda>k. prefix k s) codes of Some k \<Rightarrow> Str k | None \<Rightarrow> NaN)
      | _ \<Rightarrow> NaN)"

fun is_text :: "cell \<Rightarrow> bool" where
  "is_text (Str s) = True"
| "is_text _ = False"

text \<open>
  The \<^verbatim>\<open>.str\<close> accessor exists on a column of dtype object only. A column with rows and
  no text cell in it is numeric (or all missing), and the accessor raises AttributeError.
\<close>

definition str_accessor :: "string \<Rightarrow> frame \<Rightarrow> bool" where
  "str_accessor c df = (rows df = [] \<or> list_ex is_text (column c df))"

definition add_department :: "frame \<Rightarrow> error + frame" where
  "add_department df =
     (if ''Computer Name'' \<in> set (columns df) then
        (if str_accessor ''Computer Name'' df
         then Inr (assign ''Department'' (\<lambda>r. str_extract (r ''Computer Name'')) df)
         else Inl AttributeError)
      else Inr df)"

subsection \<open>Dates and day counts\<close>

text \<open>
  One cell of \<^verbatim>\<open>pd.to_datetime(df[c], errors="coerce")\<close>: a missing value stays missing, a
  timestamp stays, anything else is parsed, and what does not parse becomes \<open>NaT\<close>.
\<close>

definition parse :: "pandas \<Rightarrow> cell list \<Rightarrow> cell \<Rightarrow> cell" where
  "parse lib col c =
     (case c of
        NaN \<Rightarrow> NaT
      | NaT \<Rightarrow> NaT
      | Stamp t \<Rightarrow> Stamp t
      | _ \<Rightarrow> (case to_datetime lib col c of Some t \<Rightarrow> Stamp t | None \<Rightarrow> NaT))"

definition day_ns :: int where
  "day_ns = 86400000000000"

text \<open>
  The subtraction of lines 46 and 54, between a parsed date column and a reading of the
  clock. The clock readings carry no time zone, so on a column with a time zone pandas
  raises TypeError. Time differences are 64-bit counts of nanoseconds: when the
  difference for some date of the column does not fit, pandas raises an overflow error
  (OverflowError, under the name OutOfBoundsDatetime in later versions). \<open>raw\<close> is the
  column before parsing, \<open>parsed\<close> the column after.
\<close>

definition fits :: "int \<Rightarrow> bool" where
  "fits d = (- 9223372036854775807 \<le> d \<and> d \<le> 9223372036854775807)"

fun overflows :: "int \<Rightarrow> cell \<Rightarrow> bool" where
  "overflows now (Stamp t) = (\<not> fits (now - t))"
| "overflows now _ = False"

definition subtraction :: "pandas \<Rightarrow> cell list \<Rightarrow> cell list \<Rightarrow> int \<Rightarrow> error option" where
  "subtraction lib raw parsed now =
     (if tz_aware lib raw then Some TypeError
      else if list_ex (overflows now) parsed then Some OverflowError
      else None)"

text \<open>
  \<^verbatim>\<open>(a - b).dt.days\<close> for one cell, once the subtraction has not raised: the days of the
  time difference, rounded towards minus infinity; missing when a side is missing.
\<close>

fun days :: "cell \<Rightarrow> cell \<Rightarrow> cell" where
  "days (Stamp a) (Stamp b) = Num ((a - b) div day_ns)"
| "days _ _ = NaN"

text \<open>Comparisons of a day count with a number: false on a missing value.\<close>

fun lt :: "cell \<Rightarrow> int \<Rightarrow> bool" where
  "lt (Num d) n = (d < n)"
| "lt _ n = False"

fun le :: "cell \<Rightarrow> int \<Rightarrow> bool" where
  "le (Num d) n = (d \<le> n)"
| "le _ n = False"

subsection \<open>The two status rules\<close>

definition check_in_status :: "cell \<Rightarrow> string" where
  "check_in_status x =
     (if lt x 30 then ''Checked in (<30 days)'' else ''Not checked in (30+ days)'')"

definition warranty_status :: "cell \<Rightarrow> string" where
  "warranty_status x =
     (if \<not> isna x \<and> lt x 0 then ''Expired''
      else (if \<not> isna x \<and> le x 90 then ''Expiring Soon (<90 days)'' else ''Valid''))"

subsection \<open>The enrichment block\<close>

text \<open>Lines 44 to 49; \<open>now\<close> is the reading of \<^verbatim>\<open>datetime.datetime.now()\<close>.\<close>

definition check_in_prep :: "pandas \<Rightarrow> int \<Rightarrow> frame \<Rightarrow> error + frame" where
  "check_in_prep lib now df =
     (if ''Last Inventory Update'' \<in> set (columns df) then
        (let df1 = assign ''Last Inventory Update''
                     (\<lambda>r. parse lib (column ''Last Inventory Update'' df) (r ''Last Inventory Update'')) df
         in case subtraction lib (column ''Last Inventory Update'' df)
                   (column ''Last Inventory Update'' df1) now of
              Some e \<Rightarrow> Inl e
            | None \<Rightarrow>
                Inr (assign ''Check-In Status'' (\<lambda>r. Str (check_in_status (r ''Days Since Update'')))
                      (assign ''Days Since Update''
                        (\<lambda>r. days (Stamp now) (r ''Last Inventory Update'')) df1)))
      else Inr df)"

text \<open>Lines 52 to 58; \<open>now\<close> is the reading of \<^verbatim>\<open>pd.Timestamp.now()\<close>.\<close>

definition warranty_prep :: "pandas \<Rightarrow> int \<Rightarrow> frame \<Rightarrow> error + frame" where
  "warranty_prep lib now df =
     (if ''Warranty Expiration'' \<in> set (columns df) then
        (let df1 = assign ''Warranty Expiration''
                     (\<lambda>r. parse lib (column ''Warranty Expiration'' df) (r ''Warranty Expiration'')) df
         in case subtraction lib (column ''Warranty Expiration'' df)
                   (column ''Warranty Expiration'' df1) now of
              Some e \<Rightarrow> Inl e
            | None \<Rightarrow>
                Inr (assign ''Warranty Status'' (\<lambda>r. Str (warranty_status (r ''Days Until Expiration'')))
                      (assign ''Days Until Expiration''
                        (\<lambda>r. days (r ''Warranty Expiration'') (Stamp now)) df1)))
      else Inr df)"

text \<open>
  The whole block. The clock is read twice, \<open>now_inv\<close> at line 46 and \<open>now_warr\<close> at
  line 54. Three steps can raise: the \<^verbatim>\<open>.str\<close> accessor of line 43 and the two
  subtractions; the first to raise ends the run.
\<close>

definition enrich :: "pandas \<Rightarrow> int \<Rightarrow> int \<Rightarrow> frame \<Rightarrow> error + frame" where
  "enrich lib now_inv now_warr df =
     (case add_department df of
        Inl e \<Rightarrow> Inl e
      | Inr df1 \<Rightarrow>
          (case check_in_prep lib now_inv df1 of
             Inl e \<Rightarrow> Inl e
           | Inr df2 \<Rightarrow> warranty_prep lib now_warr df2))"

text \<open>
  The same block read row by row: what it makes of one row \<open>r\<close> of the table \<open>df\<close> when
  no step raises. The script works column by column; \<open>enrich_rows\<close> below shows that the
  two readings agree.
\<close>

definition enrich_row :: "pandas \<Rightarrow> int \<Rightarrow> int \<Rightarrow> frame \<Rightarrow> row \<Rightarrow> row" where
  "enrich_row lib now_inv now_warr df r =
     (let r1 = (if ''Computer Name'' \<in> set (columns df)
                then r(''Department'' := str_extract (r ''Computer Name'')) else r);
          u = parse lib (column ''Last Inventory Update'' df) (r ''Last Inventory Update'');
          r2 = (if ''Last Inventory Update'' \<in> set (columns df)
                then r1(''Last Inventory Update'' := u,
                        ''Days Since Update'' := days (Stamp now_inv) u,
                        ''Check-In Status'' := Str (check_in_status (days (Stamp now_inv) u)))
                else r1);
          w = parse lib (column ''Warranty Expiration'' df) (r ''Warranty Expiration'')
      in (if ''Warranty Expiration'' \<in> set (columns df)
          then r2(''Warranty Expiration'' := w,
                  ''Days Until Expiration'' := days w (Stamp now_warr),
                  ''Warranty Status'' := Str (warranty_status (days w (Stamp now_warr))))
          else r2))"

section \<open>Reading the uploaded files (lines 29 to 39)\<close>

text \<open>
  \<^verbatim>\<open>pd.concat(dfs, ignore_index=True)\<close>: the columns of all tables in the order they first
  appear, the rows of all tables in order, \<open>NaN\<close> where a table lacks a column, and fresh
  index labels counted from 0.
\<close>

definition all_columns :: "frame list \<Rightarrow> string list" where
  "all_columns dfs = rev (remdups (rev (concat (map columns dfs))))"

definition concat_frames :: "frame list \<Rightarrow> frame" where
  "concat_frames dfs =
     \<lparr>columns = all_columns dfs,
      rows = enumerate 0 (concat (map (\<lambda>d. map (\<lambda>(i, r). (\<lambda>c. if c \<in> set (columns d) then r c else NaN))
                                         (rows d)) dfs))\<rparr>"

text \<open>
  An uploaded file is given by what \<^verbatim>\<open>pd.read_csv\<close> makes of it: a table, or \<open>None\<close> when
  the read raises (the script reports it and goes on). \<open>load\<close> is the value of \<^verbatim>\<open>df\<close> after
  line 39, \<open>None\<close> being Python's \<^verbatim>\<open>None\<close>.
\<close>

definition load :: "frame option list \<Rightarrow> frame option" where
  "load uploaded_files =
     (let dfs = List.map_filter id uploaded_files
      in if dfs \<noteq> [] then Some (concat_frames dfs) else None)"

text \<open>
  Lines 29 to 58. With no uploaded file the script skips everything and shows a hint
  (\<open>Inr None\<close>). Otherwise the enrichment block runs on \<^verbatim>\<open>df\<close> whatever \<open>load\<close> left in
  it: on \<^verbatim>\<open>None\<close> the first \<^verbatim>\<open>df.columns\<close> (line 42) raises AttributeError.
\<close>

definition prepare :: "pandas \<Rightarrow> int \<Rightarrow> int \<Rightarrow> frame option list \<Rightarrow> error + frame option" where
  "prepare lib now_inv now_warr uploaded_files =
     (if uploaded_files = [] then Inr None
      else (case load uploaded_files of
              None \<Rightarrow> Inl AttributeError
            | Some df \<Rightarrow> (case enrich lib now_inv now_warr df of
                           Inl e \<Rightarrow> Inl e
                         | Inr d \<Rightarrow> Inr (Some d))))"

section \<open>The text of a row\<close>

text \<open>
  \<^verbatim>\<open>str.lower()\<close>, on the letters A to Z; every other character is left as it is.
\<close>

definition lower_char :: "char \<Rightarrow> char" where
  "lower_char c =
     (case map_of (zip ''ABCDEFGHIJKLMNOPQRSTUVWXYZ'' ''abcdefghijklmnopqrstuvwxyz'') c of
        Some d \<Rightarrow> d
      | None \<Rightarrow> c)"

definition lower :: "string \<Rightarrow> string" where
  "lower s = map lower_char s"

definition ljust :: "nat \<Rightarrow> string \<Rightarrow> string" where
  "ljust n s = s @ replicate (n - length s) (CHR '' '')"

definition rjust :: "nat \<Rightarrow> string \<Rightarrow> string" where
  "rjust n s = replicate (n - length s) (CHR '' '') @ s"

definition digit :: "nat \<Rightarrow> char" where
  "digit n = ''0123456789'' ! (n mod 10)"

fun decimal :: "nat \<Rightarrow> string" where
  "decimal n = (if n < 10 then [digit n] else decimal (n div 10) @ [digit n])"

definition printable :: "string \<Rightarrow> bool" where
  "printable s = list_all (\<lambda>c. CHR '' '' \<le> c \<and> c \<le> CHR ''~'') s"

fun short_text :: "cell \<Rightarrow> bool" where
  "short_text (Str s) = (printable s \<and> length s \<le> 50)"
| "short_text _ = False"

fun value_text :: "cell \<Rightarrow> string" where
  "value_text (Str s) = s"
| "value_text _ = []"

text \<open>
  \<^verbatim>\<open>str(row)\<close> of a row of \<^verbatim>\<open>DataFrame.apply(..., axis=1)\<close> is pandas' print of a Series.
  For a row of 1 to 60 fields, each a printable ASCII text of at most 50 characters under
  a printable ASCII column name, that print is: one line per field, the column name padded
  on the right to the longest name, four blanks, the value padded on the left to the
  longest value; then the line \<^verbatim>\<open>Name: <index label>, dtype: object\<close>.
\<close>

definition plain :: "string list \<Rightarrow> row \<Rightarrow> bool" where
  "plain cs r = (cs \<noteq> [] \<and> length cs \<le> 60 \<and> list_all (\<lambda>c. printable c \<and> short_text (r c)) cs)"

definition series_text :: "string list \<Rightarrow> nat \<Rightarrow> row \<Rightarrow> string" where
  "series_text cs i r =
     (let lw = foldr max (map length cs) 0;
          vw = foldr max (map (\<lambda>c. length (value_text (r c))) cs) 0
      in concat (map (\<lambda>c. ljust lw c @ ''    '' @ rjust vw (value_text (r c)) @ [CHR 0x0A]) cs)
         @ ''Name: '' @ decimal i @ '', dtype: object'')"

text \<open>
  Any other row (more fields, longer or non-text values) is printed by pandas with
  truncation and number and date formats that are left to the library.
\<close>

definition str_row :: "pandas \<Rightarrow> string list \<Rightarrow> nat \<times> row \<Rightarrow> string" where
  "str_row lib cs ir =
     (case ir of (i, r) \<Rightarrow>
        if plain cs r then series_text cs i r else other_text lib i (map (\<lambda>c. (c, r c)) cs))"

section \<open>The filter widgets and the filters\<close>

text \<open>\<^verbatim>\<open>results[mask]\<close>: the rows on which the mask holds, in their order, labels kept.\<close>

definition keep :: "(nat \<times> row \<Rightarrow> bool) \<Rightarrow> frame \<Rightarrow> frame" where
  "keep p df = df\<lparr>rows := filter p (rows df)\<rparr>"

text \<open>The comparison \<^verbatim>\<open>==\<close> of a cell with a selected value: false on a missing cell.\<close>

definition eq :: "cell \<Rightarrow> cell \<Rightarrow> bool" where
  "eq a b = (\<not> isna a \<and> \<not> isna b \<and> a = b)"

text \<open>\<^verbatim>\<open>df[c].dropna().unique()\<close>: the values present, each once, in order of first appearance.\<close>

definition unique_values :: "string \<Rightarrow> frame \<Rightarrow> cell list" where
  "unique_values c df = rev (remdups (rev (filter (\<lambda>x. \<not> isna x) (column c df))))"

fun is_num :: "cell \<Rightarrow> bool" where
  "is_num (Num n) = True"
| "is_num _ = False"

fun is_stamp :: "cell \<Rightarrow> bool" where
  "is_stamp (Stamp t) = True"
| "is_stamp _ = False"

fun number :: "cell \<Rightarrow> int" where
  "number (Num n) = n"
| "number (Stamp t) = t"
| "number _ = 0"

text \<open>
  Python's \<^verbatim>\<open>sorted\<close> on values that are present: texts sort among themselves, and so do
  numbers and timestamps; a list that mixes the kinds raises TypeError.
\<close>

definition sorted_values :: "cell list \<Rightarrow> error + cell list" where
  "sorted_values xs =
     (if list_all is_text xs then Inr (map Str (sort (map value_text xs)))
      else if list_all is_num xs then Inr (map Num (sort (map number xs)))
      else if list_all is_stamp xs then Inr (map Stamp (sort (map number xs)))
      else Inl TypeError)"

text \<open>
  \<^verbatim>\<open>st.selectbox\<close>: shows the first option until the user picks another; \<open>pick\<close> is the
  position the user picked.
\<close>

definition selectbox :: "cell list \<Rightarrow> nat \<Rightarrow> cell" where
  "selectbox options pick = options ! (if pick < length options then pick else 0)"

subsection \<open>Inventory page (lines 70 to 104)\<close>

text \<open>Lines 75 to 80: the options of the department box.\<close>

definition dept_options :: "frame \<Rightarrow> error + cell list" where
  "dept_options df =
     (let departments = (if ''Department'' \<in> set (columns df)
                         then unique_values ''Department'' df else [])
      in if length departments > 0
         then (case sorted_values departments of
                 Inl e \<Rightarrow> Inl e
               | Inr ds \<Rightarrow> Inr ([Str ''All''] @ ds))
         else Inr [Str ''All''])"

text \<open>
  Lines 82 to 84. Without a \<^verbatim>\<open>Managed\<close> column \<^verbatim>\<open>managed\<close> is the Python list \<^verbatim>\<open>[]\<close>, and
  \<^verbatim>\<open>managed.tolist()\<close> raises AttributeError.
\<close>

definition managed_options :: "frame \<Rightarrow> error + cell list" where
  "managed_options df =
     (if ''Managed'' \<in> set (columns df)
      then (case sorted_values (unique_values ''Managed'' df) of
              Inl e \<Rightarrow> Inl e
            | Inr ms \<Rightarrow> Inr ([Str ''All''] @ ms @ [Str ''Unmanaged'']))
      else Inl AttributeError)"

text \<open>Lines 86 to 90.\<close>

definition os_options :: "frame \<Rightarrow> error + cell list" where
  "os_options df =
     (if ''Operating System'' \<in> set (columns df)
      then (case sorted_values (unique_values ''Operating System'' df) of
              Inl e \<Rightarrow> Inl e
            | Inr os \<Rightarrow> Inr ([Str ''All''] @ os))
      else Inr [Str ''All''])"

text \<open>Lines 94 and 95: no look at the columns; a missing column raises KeyError.\<close>

definition filter_department :: "cell \<Rightarrow> frame \<Rightarrow> error + frame" where
  "filter_department selected_dept results =
     (if selected_dept \<noteq> Str ''All'' then
        (if ''Department'' \<in> set (columns results)
         then Inr (keep (\<lambda>(i, r). eq (r ''Department'') selected_dept) results)
         else Inl KeyError)
      else Inr results)"

text \<open>Lines 96 to 100.\<close>

definition filter_managed :: "cell \<Rightarrow> frame \<Rightarrow> frame" where
  "filter_managed selected_managed results =
     (if selected_managed \<noteq> Str ''All'' \<and> ''Managed'' \<in> set (columns results) then
        (if selected_managed = Str ''Unmanaged''
         then keep (\<lambda>(i, r). isna (r ''Managed'') \<or> eq (r ''Managed'') (Str ''Unmanaged'')) results
         else keep (\<lambda>(i, r). eq (r ''Managed'') selected_managed) results)
      else results)"

text \<open>
  Lines 101 and 102. On a table without rows \<^verbatim>\<open>DataFrame.apply(..., axis=1)\<close> gives an empty
  Series of floats, which is no boolean mask: pandas reads it as an empty list of column
  names, and the selection keeps no column.
\<close>

definition search_hit :: "pandas \<Rightarrow> string \<Rightarrow> string list \<Rightarrow> nat \<times> row \<Rightarrow> bool" where
  "search_hit lib search_term cs ir = sublist (lower search_term) (lower (str_row lib cs ir))"

definition filter_search :: "pandas \<Rightarrow> string \<Rightarrow> frame \<Rightarrow> frame" where
  "filter_search lib search_term results =
     (if search_term \<noteq> [] then
        (if rows results = [] then results\<lparr>columns := []\<rparr>
         else keep (search_hit lib search_term (columns results)) results)
      else results)"

text \<open>Lines 103 and 104.\<close>

definition filter_os :: "cell \<Rightarrow> frame \<Rightarrow> frame" where
  "filter_os selected_os results =
     (if selected_os \<noteq> Str ''All'' \<and> ''Operating System'' \<in> set (columns results)
      then keep (\<lambda>(i, r). eq (r ''Operating System'') selected_os) results
      else results)"

text \<open>Lines 93 to 104: the four filters in the order of the script.\<close>

definition apply_filters :: "pandas \<Rightarrow> frame \<Rightarrow> cell \<Rightarrow> cell \<Rightarrow> string \<Rightarrow> cell \<Rightarrow> error + frame" where
  "apply_filters lib df selected_dept selected_managed search_term selected_os =
     (case filter_department selected_dept df of
        Inl e \<Rightarrow> Inl e
      | Inr results \<Rightarrow>
          Inr (filter_os selected_os
                (filter_search lib search_term (filter_managed selected_managed results))))"

text \<open>
  Lines 70 to 104: the widgets are built first, each from the enriched table, then the
  filters run on what the user picked in them.
\<close>

definition inventory :: "pandas \<Rightarrow> frame \<Rightarrow> string \<Rightarrow> nat \<Rightarrow> nat \<Rightarrow> nat \<Rightarrow> error + frame" where
  "inventory lib df search_term pick_dept pick_managed pick_os =
     (case dept_options df of
        Inl e \<Rightarrow> Inl e
      | Inr ds \<Rightarrow>
          (case managed_options df of
             Inl e \<Rightarrow> Inl e
           | Inr ms \<Rightarrow>
               (case os_options df of
                  Inl e \<Rightarrow> Inl e
                | Inr os \<Rightarrow>
                    apply_filters lib df (selectbox ds pick_dept) (selectbox ms pick_managed)
                      search_term (selectbox os pick_os))))"

subsection \<open>Warranty page (lines 176 to 190)\<close>

definition warranty_options :: "frame \<Rightarrow> error + cell list" where
  "warranty_options df =
     (case (if ''Department'' \<in> set (columns df)
            then sorted_values (unique_values ''Department'' df) else Inr []) of
        Inl e \<Rightarrow> Inl e
      | Inr ds \<Rightarrow> Inr (if ds \<noteq> [] then [Str ''All''] @ ds else [Str ''All'']))"

definition warranty_filter :: "cell \<Rightarrow> frame \<Rightarrow> frame" where
  "warranty_filter selected_dept_w df =
     (if selected_dept_w \<noteq> Str ''All'' \<and> ''Department'' \<in> set (columns df)
      then keep (\<lambda>(i, r). eq (r ''Department'') selected_dept_w) df
      else df)"

definition warranty :: "frame \<Rightarrow> nat \<Rightarrow> error + frame" where
  "warranty df pick_dept =
     (case warranty_options df of
        Inl e \<Rightarrow> Inl e
      | Inr options \<Rightarrow> Inr (warranty_filter (selectbox options pick_dept) df))"

section \<open>A worked batch\<close>

text \<open>
  A library whose date parser knows one date, 1 January 2024, and attaches no time zone,
  and a batch of three devices read from one file. The clock stands ten days after that
  date.
\<close>

definition new_year :: int where
  "new_year = 1704067200000000000"

definition sample_pandas :: pandas where
  "sample_pandas =
     \<lparr>to_datetime = (\<lambda>col c. if c = Str ''2024-01-01'' then Some new_year else None),
      tz_aware = (\<lambda>col. False),
      other_text = (\<lambda>i fields. [])\<rparr>"

definition sample_now :: int where
  "sample_now = new_year + 10 * day_ns"

definition sample :: frame where
  "sample =
     \<lparr>columns = [''Computer Name'', ''Last Inventory Update'', ''Warranty Expiration'', ''Managed''],
      rows =
        [(0, (\<lambda>c. NaN)(''Computer Name'' := Str ''PRO-01'',
                        ''Last Inventory Update'' := Str ''2024-01-01'',
                        ''Warranty Expiration'' := Str ''n/a'',
                        ''Managed'' := Str ''Managed'')),
         (1, (\<lambda>c. NaN)(''Computer Name'' := Str ''STUDENT-7'',
                        ''Last Inventory Update'' := Str ''soon'',
                        ''Warranty Expiration'' := Str ''2024-01-01'',
                        ''Managed'' := Str ''Unmanaged'')),
         (2, (\<lambda>c. NaN)(''Computer Name'' := Str ''LAB-3''))]\<rparr>"

text \<open>What the enrichment block makes of it (\<open>enrich_sample\<close> below).\<close>

definition enriched_sample :: frame where
  "enriched_sample =
     \<lparr>columns = [''Computer Name'', ''Last Inventory Update'', ''Warranty Expiration'', ''Managed'',
                 ''Department'', ''Days Since Update'', ''Check-In Status'',
                 ''Days Until Expiration'', ''Warranty Status''],
      rows =
        [(0, (\<lambda>c. NaN)(''Computer Name'' := Str ''PRO-01'',
                        ''Last Inventory Update'' := Stamp new_year,
                        ''Warranty Expiration'' := NaT,
                        ''Managed'' := Str ''Managed'',
                        ''Department'' := Str ''PRO'',
                        ''Days Since Update'' := Num 10,
                        ''Check-In Status'' := Str ''Checked in (<30 days)'',
                        ''Days Until Expiration'' := NaN,
                        ''Warranty Status'' := Str ''Valid'')),
         (1, (\<lambda>c. NaN)(''Computer Name'' := Str ''STUDENT-7'',
                        ''Last Inventory Update'' := NaT,
                        ''Warranty Expiration'' := Stamp new_year,
                        ''Managed'' := Str ''Unmanaged'',
                        ''Department'' := Str ''STU'',
                        ''Days Since Update'' := NaN,
                        ''Check-In Status'' := Str ''Not checked in (30+ days)'',
                        ''Days Until Expiration'' := Num (- 10),
                        ''Warranty Status'' := Str ''Expired'')),
         (2, (\<lambda>c. NaN)(''Computer Name'' := Str ''LAB-3'',
                        ''Last Inventory Update'' := NaT,
                        ''Warranty Expiration'' := NaT,
                        ''Department'' := NaN,
                        ''Days Since Update'' := NaN,
                        ''Check-In Status'' := Str ''Not checked in (30+ days)'',
                        ''Days Until Expiration'' := NaN,
                        ''Warranty Status'' := Str ''Valid''))]\<rparr>"

text \<open>
  Two more files as \<^verbatim>\<open>pd.read_csv\<close> gives them: an export of one managed device, and an
  export of two devices without a text name (one name blank, one a bare number).
\<close>

definition one_device :: frame where
  "one_device =
     \<lparr>columns = [''Computer Name'', ''Managed''],
      rows = [(0, (\<lambda>c. NaN)(''Computer Name'' := Str ''PRO-01'', ''Managed'' := Str ''Managed''))]\<rparr>"

text \<open>What the script has for it after line 58 (\<open>prepare_one_device\<close> below).\<close>

definition one_device_enriched :: frame where
  "one_device_enriched =
     \<lparr>columns = [''Computer Name'', ''Managed'', ''Department''],
      rows = [(0, (\<lambda>c. NaN)(''Computer Name'' := Str ''PRO-01'', ''Managed'' := Str ''Managed'',
                             ''Department'' := Str ''PRO''))]\<rparr>"


section \<open>Facts about the enrichment block\<close>

lemma rows_assign: "rows (assign c f df) = map (\<lambda>(i, r). (i, r(c := f r))) (rows df)"
  by (simp add: assign_def)

lemma columns_assign:
  "columns (assign c f df) = (if c \<in> set (columns df) then columns df else columns df @ [c])"
  by (simp add: assign_def)

lemma column_assign: "column c' (assign c f df) = (if c' = c then map (\<lambda>(i, r). f r) (rows df) else column c' df)"
  by (simp add: column_def assign_def case_prod_unfold comp_def)

lemma isna_parse: "isna (parse lib col c) \<longleftrightarrow> parse lib col c = NaT"
  by (simp add: parse_def split: cell.splits option.splits)

lemma days_NaT [simp]: "days a NaT = NaN" "days NaT b = NaN"
  by (cases a; simp) simp

lemma isna_days_parse: "isna (days (parse lib col c) (Stamp t)) \<longleftrightarrow> isna (parse lib col c)"
  by (simp add: parse_def split: cell.splits option.splits)

lemma add_department_rows:
  "add_department df = Inr df1 \<Longrightarrow>
   rows df1 = map (\<lambda>(i, r). (i, if ''Computer Name'' \<in> set (columns df)
                   then r(''Department'' := str_extract (r ''Computer Name'')) else r)) (rows df)"
  by (auto simp: add_department_def rows_assign split: if_splits)

lemma add_department_columns:
  "add_department df = Inr df1 \<Longrightarrow>
   columns df1 = (if ''Computer Name'' \<in> set (columns df) \<and> ''Department'' \<notin> set (columns df)
                  then columns df @ [''Department''] else columns df)"
  by (auto simp: add_department_def columns_assign split: if_splits)

lemma add_department_column:
  "add_department df = Inr df1 \<Longrightarrow> c \<noteq> ''Department'' \<Longrightarrow> column c df1 = column c df"
  by (auto simp: add_department_def column_assign split: if_splits)

lemma rows_check_in_prep:
  "check_in_prep lib now df = Inr df2 \<Longrightarrow>
   rows df2 =
     map (\<lambda>(i, r). (i, if ''Last Inventory Update'' \<in> set (columns df) then
        r(''Last Inventory Update'' :=
            parse lib (column ''Last Inventory Update'' df) (r ''Last Inventory Update''),
          ''Days Since Update'' :=
            days (Stamp now) (parse lib (column ''Last Inventory Update'' df) (r ''Last Inventory Update'')),
          ''Check-In Status'' :=
            Str (check_in_status
              (days (Stamp now) (parse lib (column ''Last Inventory Update'' df) (r ''Last Inventory Update'')))))
        else r))
       (rows df)"
  by (auto simp: check_in_prep_def rows_assign case_prod_unfold comp_def Let_def
      split: if_splits option.splits)

lemma rows_warranty_prep:
  "warranty_prep lib now df = Inr df3 \<Longrightarrow>
   rows df3 =
     map (\<lambda>(i, r). (i, if ''Warranty Expiration'' \<in> set (columns df) then
        r(''Warranty Expiration'' :=
            parse lib (column ''Warranty Expiration'' df) (r ''Warranty Expiration''),
          ''Days Until Expiration'' :=
            days (parse lib (column ''Warranty Expiration'' df) (r ''Warranty Expiration'')) (Stamp now),
          ''Warranty Status'' :=
            Str (warranty_status
              (days (parse lib (column ''Warranty Expiration'' df) (r ''Warranty Expiration'')) (Stamp now))))
        else r))
       (rows df)"
  by (auto simp: warranty_prep_def rows_assign case_prod_unfold comp_def Let_def
      split: if_splits option.splits)

lemma columns_check_in_prep:
  "check_in_prep lib now df = Inr df2 \<Longrightarrow>
   columns df2 =
     (if ''Last Inventory Update'' \<in> set (columns df)
      then columns df @ filter (\<lambda>c. c \<notin> set (columns df)) [''Days Since Update'', ''Check-In Status'']
      else columns df)"
  by (auto simp: check_in_prep_def columns_assign Let_def split: if_splits option.splits)

lemma columns_warranty_prep:
  "warranty_prep lib now df = Inr df3 \<Longrightarrow>
   columns df3 =
     (if ''Warranty Expiration'' \<in> set (columns df)
      then columns df @ filter (\<lambda>c. c \<notin> set (columns df)) [''Days Until Expiration'', ''Warranty Status'']
      else columns df)"
  by (auto simp: warranty_prep_def columns_assign Let_def split: if_splits option.splits)

lemma column_check_in_prep:
  "check_in_prep lib now df = Inr df2 \<Longrightarrow>
   c \<notin> set [''Last Inventory Update'', ''Days Since Update'', ''Check-In Status''] \<Longrightarrow>
   column c df2 = column c df"
  by (auto simp: check_in_prep_def column_assign Let_def split: if_splits option.splits)

lemma enrich_split:
  assumes "enrich lib now_inv now_warr df = Inr df'"
  obtains df1 df2 where "add_department df = Inr df1"
    and "check_in_prep lib now_inv df1 = Inr df2"
    and "warranty_prep lib now_warr df2 = Inr df'"
  using assms by (auto simp: enrich_def split: sum.splits)

lemma enrich_columns_mono:
  assumes "enrich lib now_inv now_warr df = Inr df'"
  shows "prefix (columns df) (columns df')"
proof -
  from assms obtain df1 df2 where d1: "add_department df = Inr df1"
    and d2: "check_in_prep lib now_inv df1 = Inr df2"
    and d3: "warranty_prep lib now_warr df2 = Inr df'"
    by (rule enrich_split)
  have "prefix (columns df) (columns df1)"
    using add_department_columns[OF d1] by simp
  also have "prefix (columns df1) (columns df2)"
    by (simp add: columns_check_in_prep[OF d2])
  also have "prefix (columns df2) (columns df')"
    by (simp add: columns_warranty_prep[OF d3])
  finally show ?thesis .
qed

lemma enrich_rows:
  assumes "enrich lib now_inv now_warr df = Inr df'"
  shows "rows df' = map (\<lambda>(i, r). (i, enrich_row lib now_inv now_warr df r)) (rows df)"
proof -
  from assms obtain df1 df2 where d1: "add_department df = Inr df1"
    and d2: "check_in_prep lib now_inv df1 = Inr df2"
    and d3: "warranty_prep lib now_warr df2 = Inr df'"
    by (rule enrich_split)
  have m1: "''Last Inventory Update'' \<in> set (columns df1) \<longleftrightarrow> ''Last Inventory Update'' \<in> set (columns df)"
    using add_department_columns[OF d1] by auto
  have m2: "''Warranty Expiration'' \<in> set (columns df2)
             \<longleftrightarrow> ''Warranty Expiration'' \<in> set (columns df)"
    using add_department_columns[OF d1] by (auto simp: columns_check_in_prep[OF d2])
  have k1: "column ''Last Inventory Update'' df1 = column ''Last Inventory Update'' df"
    using add_department_column[OF d1] by simp
  have k2: "column ''Warranty Expiration'' df2 = column ''Warranty Expiration'' df"
    using add_department_column[OF d1] by (simp add: column_check_in_prep[OF d2])
  show ?thesis
    unfolding rows_warranty_prep[OF d3] rows_check_in_prep[OF d2] add_department_rows[OF d1] m1 m2 k1 k2
    by (simp add: case_prod_unfold comp_def Let_def enrich_row_def)
qed

lemma codes_no_overlap:
  "k \<in> set codes \<Longrightarrow> k' \<in> set codes \<Longrightarrow> prefix k s \<Longrightarrow> prefix k' s \<Longrightarrow> k' = k"
  by (auto simp: codes_def prefix_def)

lemma str_extract_code:
  assumes "k \<in> set codes"
  shows "str_extract (Str (k @ rest)) = Str k"
proof -
  have "find (\<lambda>k'. prefix k' (k @ rest)) codes \<noteq> None"
    using assms by (auto simp: find_None_iff)
  then obtain k' where f: "find (\<lambda>k'. prefix k' (k @ rest)) codes = Some k'"
    by auto
  then have "k' \<in> set codes" "prefix k' (k @ rest)"
    by (auto simp: find_Some_iff)
  with assms have "k' = k"
    using codes_no_overlap[of k k' "k @ rest"] by simp
  with f show ?thesis
    by (simp add: str_extract_def)
qed

lemma str_extract_null:
  "str_extract c = NaN \<longleftrightarrow> \<not> (\<exists>k rest. k \<in> set codes \<and> c = Str (k @ rest))"
proof (cases c)
  case (Str s)
  show ?thesis
  proof (cases "find (\<lambda>k. prefix k s) codes")
    case None
    then have "\<forall>k \<in> set codes. \<not> prefix k s"
      by (simp add: find_None_iff)
    then have "\<not> (\<exists>k rest. k \<in> set codes \<and> s = k @ rest)"
      by (auto simp: prefix_def)
    with None Str show ?thesis
      by (simp add: str_extract_def)
  next
    case (Some k)
    then have "k \<in> set codes" "prefix k s"
      by (auto simp: find_Some_iff)
    then have "\<exists>k rest. k \<in> set codes \<and> s = k @ rest"
      by (auto simp: prefix_def)
    with Some Str show ?thesis
      by (simp add: str_extract_def)
  qed
qed (simp_all add: str_extract_def)

lemma parse_parse: "parse lib col' (parse lib col c) = parse lib col c"
  by (simp add: parse_def split: cell.splits option.splits)

lemma enrich_row_twice:
  assumes "''Computer Name'' \<in> set (columns df') \<longleftrightarrow> ''Computer Name'' \<in> set (columns df)"
    and "''Last Inventory Update'' \<in> set (columns df') \<longleftrightarrow> ''Last Inventory Update'' \<in> set (columns df)"
    and "''Warranty Expiration'' \<in> set (columns df') \<longleftrightarrow> ''Warranty Expiration'' \<in> set (columns df)"
  shows "enrich_row lib n1 n2 df' (enrich_row lib n1 n2 df r) = enrich_row lib n1 n2 df r"
  unfolding enrich_row_def [of _ _ _ df'] assms
  by (cases "''Computer Name'' \<in> set (columns df)"; cases "''Last Inventory Update'' \<in> set (columns df)";
      cases "''Warranty Expiration'' \<in> set (columns df)")
     (simp_all add: enrich_row_def Let_def parse_parse fun_eq_iff)

lemma enrich_columns:
  assumes "enrich lib now_inv now_warr df = Inr df'"
  shows "columns df' =
    (let c1 = (if ''Computer Name'' \<in> set (columns df) \<and> ''Department'' \<notin> set (columns df)
               then columns df @ [''Department''] else columns df);
         c2 = (if ''Last Inventory Update'' \<in> set c1
               then c1 @ filter (\<lambda>c. c \<notin> set c1) [''Days Since Update'', ''Check-In Status''] else c1)
     in (if ''Warranty Expiration'' \<in> set c2
         then c2 @ filter (\<lambda>c. c \<notin> set c2) [''Days Until Expiration'', ''Warranty Status''] else c2))"
proof -
  from assms obtain df1 df2 where d1: "add_department df = Inr df1"
    and d2: "check_in_prep lib now_inv df1 = Inr df2"
    and d3: "warranty_prep lib now_warr df2 = Inr df'"
    by (rule enrich_split)
  show ?thesis
    unfolding columns_warranty_prep[OF d3] columns_check_in_prep[OF d2] add_department_columns[OF d1] Let_def
    by (rule refl)
qed

lemma enrich_derived_columns:
  assumes "enrich lib now_inv now_warr df = Inr df'"
  shows "(''Computer Name'' \<in> set (columns df') \<longrightarrow> ''Department'' \<in> set (columns df')) \<and>
         (''Last Inventory Update'' \<in> set (columns df') \<longrightarrow>
            ''Days Since Update'' \<in> set (columns df') \<and> ''Check-In Status'' \<in> set (columns df')) \<and>
         (''Warranty Expiration'' \<in> set (columns df') \<longrightarrow>
            ''Days Until Expiration'' \<in> set (columns df') \<and> ''Warranty Status'' \<in> set (columns df'))"
  unfolding enrich_columns[OF assms] by (auto simp: Let_def)

lemma enrich_columns_again:
  assumes "enrich lib now_inv now_warr df = Inr df'" and "enrich lib now_inv now_warr df' = Inr df''"
  shows "columns df'' = columns df'"
  unfolding enrich_columns[OF assms(2)] using enrich_derived_columns[OF assms(1)]
  by (auto simp: Let_def)

text \<open>When the block returns.\<close>

lemma column_parsed: "column c (assign c (\<lambda>r. f (r c)) df) = map f (column c df)"
  by (simp add: column_def assign_def case_prod_unfold comp_def)

lemma check_in_prep_returns:
  "(\<exists>df2. check_in_prep lib now df = Inr df2) \<longleftrightarrow>
   (''Last Inventory Update'' \<in> set (columns df) \<longrightarrow>
      \<not> tz_aware lib (column ''Last Inventory Update'' df) \<and>
      \<not> list_ex (overflows now)
          (map (parse lib (column ''Last Inventory Update'' df)) (column ''Last Inventory Update'' df)))"
  by (simp add: check_in_prep_def subtraction_def column_parsed Let_def)

lemma warranty_prep_returns:
  "(\<exists>df3. warranty_prep lib now df = Inr df3) \<longleftrightarrow>
   (''Warranty Expiration'' \<in> set (columns df) \<longrightarrow>
      \<not> tz_aware lib (column ''Warranty Expiration'' df) \<and>
      \<not> list_ex (overflows now)
          (map (parse lib (column ''Warranty Expiration'' df)) (column ''Warranty Expiration'' df)))"
  by (simp add: warranty_prep_def subtraction_def column_parsed Let_def)

lemma add_department_returns:
  "(\<exists>df1. add_department df = Inr df1) \<longleftrightarrow>
   (''Computer Name'' \<in> set (columns df) \<longrightarrow> str_accessor ''Computer Name'' df)"
  by (simp add: add_department_def)

lemma enrich_returns:
  "(\<exists>df'. enrich lib now_inv now_warr df = Inr df') \<longleftrightarrow>
   (''Computer Name'' \<in> set (columns df) \<longrightarrow> str_accessor ''Computer Name'' df) \<and>
   (''Last Inventory Update'' \<in> set (columns df) \<longrightarrow>
      \<not> tz_aware lib (column ''Last Inventory Update'' df) \<and>
      \<not> list_ex (overflows now_inv)
          (map (parse lib (column ''Last Inventory Update'' df)) (column ''Last Inventory Update'' df))) \<and>
   (''Warranty Expiration'' \<in> set (columns df) \<longrightarrow>
      \<not> tz_aware lib (column ''Warranty Expiration'' df) \<and>
      \<not> list_ex (overflows now_warr)
          (map (parse lib (column ''Warranty Expiration'' df)) (column ''Warranty Expiration'' df)))"
  (is "?L \<longleftrightarrow> ?A \<and> ?B \<and> ?C")
proof (cases "\<exists>df1. add_department df = Inr df1")
  case False
  then have "\<not> ?A"
    by (simp add: add_department_returns)
  moreover from False have "\<not> ?L"
    by (auto simp: enrich_def split: sum.splits)
  ultimately show ?thesis
    by blast
next
  case True
  then obtain df1 where d1: "add_department df = Inr df1"
    by blast
  then have a: ?A
    using add_department_returns[of df] by blast
  have m1: "''Last Inventory Update'' \<in> set (columns df1) \<longleftrightarrow> ''Last Inventory Update'' \<in> set (columns df)"
    using add_department_columns[OF d1] by auto
  have k1: "column ''Last Inventory Update'' df1 = column ''Last Inventory Update'' df"
    using add_department_column[OF d1] by simp
  show ?thesis
  proof (cases "\<exists>df2. check_in_prep lib now_inv df1 = Inr df2")
    case False
    then have "\<not> ?B"
      unfolding check_in_prep_returns m1 k1 .
    moreover from False d1 have "\<not> ?L"
      by (auto simp: enrich_def split: sum.splits)
    ultimately show ?thesis
      by blast
  next
    case True
    then obtain df2 where d2: "check_in_prep lib now_inv df1 = Inr df2"
      by blast
    then have b: ?B
      using check_in_prep_returns[of lib now_inv df1] unfolding m1 k1 by blast
    have m2: "''Warranty Expiration'' \<in> set (columns df2) \<longleftrightarrow> ''Warranty Expiration'' \<in> set (columns df)"
      using add_department_columns[OF d1] by (auto simp: columns_check_in_prep[OF d2])
    have k2: "column ''Warranty Expiration'' df2 = column ''Warranty Expiration'' df"
      using add_department_column[OF d1] by (simp add: column_check_in_prep[OF d2])
    have "?L \<longleftrightarrow> (\<exists>df3. warranty_prep lib now_warr df2 = Inr df3)"
      using d1 d2 by (simp add: enrich_def)
    also have "\<dots> \<longleftrightarrow> ?C"
      unfolding warranty_prep_returns m2 k2 ..
    finally show ?thesis
      using a b by blast
  qed
qed

lemma enrich_parsed_columns:
  assumes "enrich lib now_inv now_warr df = Inr df'"
  shows "''Last Inventory Update'' \<in> set (columns df) \<Longrightarrow>
           column ''Last Inventory Update'' df' =
             map (parse lib (column ''Last Inventory Update'' df)) (column ''Last Inventory Update'' df)"
    and "''Warranty Expiration'' \<in> set (columns df) \<Longrightarrow>
           column ''Warranty Expiration'' df' =
             map (parse lib (column ''Warranty Expiration'' df)) (column ''Warranty Expiration'' df)"
    and "column ''Computer Name'' df' = column ''Computer Name'' df"
  unfolding enrich_rows[OF assms] column_def [of _ df']
  by (simp_all add: case_prod_unfold comp_def Let_def column_def enrich_row_def)

section \<open>Facts about the filters\<close>

lemma subseq_keep: "subseq (rows (keep p df)) (rows df)"
  by (simp add: keep_def)

lemma eq_Str: "eq a (Str s) \<longleftrightarrow> a = Str s"
  by (cases a) (auto simp: eq_def)

lemma map_filter_failed: "List.map_filter id (replicate n None) = []"
  by (induction n) (simp_all add: List.map_filter_simps)

section \<open>The worked batch, enriched\<close>

lemma day_count [simp]: "(10 * day_ns) div day_ns = 10" "(- (10 * day_ns)) div day_ns = - 10"
  by (simp_all add: day_ns_def)

lemma ten_days_fit [simp]: "fits (10 * day_ns)"
  by (simp add: fits_def day_ns_def)

lemma enrich_sample: "enrich sample_pandas sample_now sample_now sample = Inr enriched_sample"
  by (simp add: enrich_def add_department_def str_accessor_def column_def sample_def
      check_in_prep_def warranty_prep_def subtraction_def assign_def enriched_sample_def
      str_extract_def codes_def parse_def sample_pandas_def sample_now_def check_in_status_def
      warranty_status_def fun_eq_iff)

lemma sample_columns:
  "''Computer Name'' \<in> set (columns sample)"
  "''Last Inventory Update'' \<in> set (columns sample)"
  "''Warranty Expiration'' \<in> set (columns sample)"
  by (simp_all add: sample_def)

lemma prepare_one_device:
  "prepare lib now_inv now_warr [Some one_device] = Inr (Some one_device_enriched)"
  by (simp add: prepare_def load_def List.map_filter_simps concat_frames_def all_columns_def
      one_device_def one_device_enriched_def enrich_def add_department_def str_accessor_def
      column_def check_in_prep_def warranty_prep_def assign_def str_extract_def codes_def
      enumerate_eq_zip fun_eq_iff)

section \<open>Claims\<close>

text \<open>
  C1. A batch in which no uploaded file can be read is said to give an empty record set
  and no error. On the script, a batch of uploaded files of which every read fails leaves
  \<^verbatim>\<open>df\<close> at \<^verbatim>\<open>None\<close>, and the enrichment block, which runs all the same, raises
  AttributeError at its first \<^verbatim>\<open>df.columns\<close>. With no uploaded file at all nothing runs.
\<close>

theorem all_reads_fail:
  "prepare lib now_inv now_warr [None] = Inl AttributeError \<and>
   prepare lib now_inv now_warr (replicate (Suc n) None) = Inl AttributeError \<and>
   prepare lib now_inv now_warr [] = Inr None"
proof -
  have "load (replicate (Suc n) None) = None"
    by (simp only: load_def map_filter_failed Let_def) simp
  then have "prepare lib now_inv now_warr (replicate (Suc n) None) = Inl AttributeError"
    by (simp add: prepare_def del: replicate_Suc)
  then show ?thesis
    by (simp add: prepare_def load_def List.map_filter_simps)
qed

text \<open>
  C2, as the script has it. A record whose warranty expiration is missing or does not
  parse has a null day count, and a record with a null day count has the warranty status
  "Valid": both tests of the rule ask for a day count that is present, so a null one
  falls through to the last branch.
\<close>

theorem null_days_valid:
  assumes "''Warranty Expiration'' \<in> set (columns df)"
    and "enrich lib now_inv now_warr df = Inr df'"
  shows "list_all2 (\<lambda>(i, r) (i', r'). i' = i \<and>
            r' ''Warranty Expiration'' =
              parse lib (column ''Warranty Expiration'' df) (r ''Warranty Expiration'') \<and>
            (isna (r' ''Days Until Expiration'') \<longleftrightarrow> isna (r' ''Warranty Expiration'')) \<and>
            (isna (r' ''Days Until Expiration'') \<longrightarrow> r' ''Warranty Status'' = Str ''Valid''))
          (rows df) (rows df')"
  unfolding enrich_rows[OF assms(2)] using assms(1)
  by (auto simp: list_all2_map2 case_prod_unfold isna_days_parse warranty_status_def Let_def enrich_row_def
      intro!: list.rel_refl_strong)

text \<open>On the worked batch: devices 0 and 2 have no parsed expiration and are "Valid".\<close>

theorem null_days_valid_witness:
  "''Warranty Expiration'' \<in> set (columns sample) \<and>
   enrich sample_pandas sample_now sample_now sample = Inr enriched_sample \<and>
   column ''Days Until Expiration'' enriched_sample = [NaN, Num (- 10), NaN] \<and>
   column ''Warranty Status'' enriched_sample = [Str ''Valid'', Str ''Expired'', Str ''Valid''] \<and>
   list_all2 (\<lambda>(i, r) (i', r'). i' = i \<and>
            r' ''Warranty Expiration'' =
              parse sample_pandas (column ''Warranty Expiration'' sample) (r ''Warranty Expiration'') \<and>
            (isna (r' ''Days Until Expiration'') \<longleftrightarrow> isna (r' ''Warranty Expiration'')) \<and>
            (isna (r' ''Days Until Expiration'') \<longrightarrow> r' ''Warranty Status'' = Str ''Valid''))
          (rows sample) (rows enriched_sample)"
  using sample_columns(3) enrich_sample null_days_valid [OF sample_columns(3) enrich_sample]
  by (simp add: enriched_sample_def column_def)

text \<open>
  As first stated, a null day count would get none of the three labels. A record whose
  warranty expiration reads "n/a" has a null day count and the label "Valid".
\<close>

theorem null_days_counterexample:
  "map_sum id (\<lambda>d. (column ''Days Until Expiration'' d, column ''Warranty Status'' d))
     (enrich sample_pandas sample_now sample_now
        \<lparr>columns = [''Warranty Expiration''],
         rows = [(0, (\<lambda>c. NaN)(''Warranty Expiration'' := Str ''n/a''))]\<rparr>)
   = Inr ([NaN], [Str ''Valid''])"
  by (simp add: enrich_def add_department_def warranty_prep_def check_in_prep_def subtraction_def
      assign_def column_def parse_def sample_pandas_def warranty_status_def)

text \<open>
  C3, as the script has it. Every record with a day count \<open>d\<close> gets exactly one of three
  different labels: "Expired" when \<open>d < 0\<close>, "Expiring Soon (<90 days)" when
  \<open>0 \<le> d \<le> 90\<close>, "Valid" when \<open>d > 90\<close>. Day 90 is "Expiring Soon", and so is day 0.
\<close>

theorem warranty_partition:
  assumes "''Warranty Expiration'' \<in> set (columns df)"
    and "enrich lib now_inv now_warr df = Inr df'"
  shows "list_all (\<lambda>(i, r'). \<forall>d. r' ''Days Until Expiration'' = Num d \<longrightarrow>
            r' ''Warranty Status'' =
              Str (if d < 0 then ''Expired''
                   else if d \<le> 90 then ''Expiring Soon (<90 days)'' else ''Valid''))
          (rows df') \<and>
         distinct [''Expired'', ''Expiring Soon (<90 days)'', ''Valid''] \<and>
         warranty_status (Num 90) = ''Expiring Soon (<90 days)'' \<and>
         warranty_status (Num 0) = ''Expiring Soon (<90 days)'' \<and>
         warranty_status (Num (- 1)) = ''Expired'' \<and>
         warranty_status (Num 91) = ''Valid''"
proof -
  have "list_all (\<lambda>(i, r'). \<forall>d. r' ''Days Until Expiration'' = Num d \<longrightarrow>
            r' ''Warranty Status'' =
              Str (if d < 0 then ''Expired''
                   else if d \<le> 90 then ''Expiring Soon (<90 days)'' else ''Valid''))
          (rows df')"
    unfolding enrich_rows[OF assms(2)] using assms(1)
    by (auto simp: list_all_iff warranty_status_def Let_def enrich_row_def)
  then show ?thesis
    by (simp add: warranty_status_def)
qed

text \<open>On the worked batch: device 1 expired ten days ago.\<close>

theorem warranty_partition_witness:
  "''Warranty Expiration'' \<in> set (columns sample) \<and>
   enrich sample_pandas sample_now sample_now sample = Inr enriched_sample \<and>
   list_all (\<lambda>(i, r'). \<forall>d. r' ''Days Until Expiration'' = Num d \<longrightarrow>
            r' ''Warranty Status'' =
              Str (if d < 0 then ''Expired''
                   else if d \<le> 90 then ''Expiring Soon (<90 days)'' else ''Valid''))
          (rows enriched_sample) \<and>
   map (\<lambda>(i, r'). (r' ''Days Until Expiration'', r' ''Warranty Status'')) (rows enriched_sample) =
     [(NaN, Str ''Valid''), (Num (- 10), Str ''Expired''), (NaN, Str ''Valid'')]"
  using sample_columns(3) enrich_sample warranty_partition [OF sample_columns(3) enrich_sample]
  by (simp add: enriched_sample_def)

text \<open>As first stated, day 0 would be "Valid". The rule makes it "Expiring Soon (<90 days)".\<close>

theorem day_zero_counterexample:
  "warranty_status (Num 0) = ''Expiring Soon (<90 days)'' \<and> warranty_status (Num 0) \<noteq> ''Valid''"
  by (simp add: warranty_status_def)

text \<open>
  C4. Every record whose last inventory update is missing or does not parse (so that the
  parsed date, and with it the day count, is null) gets the check-in status
  "Not checked in (30+ days)": the comparison with 30 is false on a null day count.
\<close>

theorem null_update_not_checked_in:
  assumes "''Last Inventory Update'' \<in> set (columns df)"
    and "enrich lib now_inv now_warr df = Inr df'"
  shows "list_all2 (\<lambda>(i, r) (i', r'). i' = i \<and>
            r' ''Last Inventory Update'' =
              parse lib (column ''Last Inventory Update'' df) (r ''Last Inventory Update'') \<and>
            (isna (r' ''Last Inventory Update'') \<longrightarrow>
               r' ''Days Since Update'' = NaN \<and>
               r' ''Check-In Status'' = Str ''Not checked in (30+ days)''))
          (rows df) (rows df')"
  unfolding enrich_rows[OF assms(2)] using assms(1)
  by (auto simp: list_all2_map2 case_prod_unfold isna_parse check_in_status_def Let_def enrich_row_def
      intro!: list.rel_refl_strong)

text \<open>On the worked batch: devices 1 and 2 have no parsed update.\<close>

theorem null_update_not_checked_in_witness:
  "''Last Inventory Update'' \<in> set (columns sample) \<and>
   enrich sample_pandas sample_now sample_now sample = Inr enriched_sample \<and>
   map (\<lambda>(i, r'). (r' ''Last Inventory Update'', r' ''Check-In Status'')) (rows enriched_sample) =
     [(Stamp new_year, Str ''Checked in (<30 days)''),
      (NaT, Str ''Not checked in (30+ days)''),
      (NaT, Str ''Not checked in (30+ days)'')] \<and>
   list_all2 (\<lambda>(i, r) (i', r'). i' = i \<and>
            r' ''Last Inventory Update'' =
              parse sample_pandas (column ''Last Inventory Update'' sample) (r ''Last Inventory Update'') \<and>
            (isna (r' ''Last Inventory Update'') \<longrightarrow>
               r' ''Days Since Update'' = NaN \<and>
               r' ''Check-In Status'' = Str ''Not checked in (30+ days)''))
          (rows sample) (rows enriched_sample)"
  using sample_columns(2) enrich_sample null_update_not_checked_in [OF sample_columns(2) enrich_sample]
  by (simp add: enriched_sample_def)

text \<open>
  C5. A filter whose column is absent is said to be skipped without raising. On the
  Inventory page a table without a \<^verbatim>\<open>Managed\<close> column raises AttributeError while the
  managed box is built (line 83), before any filter runs; and the department filter of
  lines 94 and 95, which does not look at the columns as the other three filters do,
  raises KeyError on a table without a \<^verbatim>\<open>Department\<close> column.
\<close>

theorem absent_column_raises:
  "inventory lib
     \<lparr>columns = [''Serial Number''], rows = [(0, (\<lambda>c. NaN)(''Serial Number'' := Str ''C02XY''))]\<rparr>
     [] 0 0 0 = Inl AttributeError \<and>
   apply_filters lib
     \<lparr>columns = [''Serial Number''], rows = [(0, (\<lambda>c. NaN)(''Serial Number'' := Str ''C02XY''))]\<rparr>
     (Str ''PRO'') (Str ''All'') [] (Str ''All'') = Inl KeyError"
  by (simp add: inventory_def dept_options_def managed_options_def apply_filters_def
      filter_department_def)

text \<open>
  C6, as the script has it. Enrichment keeps the rows, their order and their labels, and
  keeps every column of the table where it stands. It leaves unchanged every column but
  the seven it assigns. The two date columns are among those: each is overwritten in
  place by its parsed timestamps, \<open>NaT\<close> standing for a value that does not parse.
\<close>

theorem enrich_frame:
  assumes "enrich lib now_inv now_warr df = Inr df'"
  shows "map fst (rows df') = map fst (rows df) \<and>
         prefix (columns df) (columns df') \<and>
         (\<forall>c. c \<notin> set [''Department'', ''Last Inventory Update'', ''Days Since Update'',
                         ''Check-In Status'', ''Warranty Expiration'', ''Days Until Expiration'',
                         ''Warranty Status'']
              \<longrightarrow> column c df' = column c df) \<and>
         (''Last Inventory Update'' \<in> set (columns df) \<longrightarrow>
            column ''Last Inventory Update'' df' =
              map (parse lib (column ''Last Inventory Update'' df)) (column ''Last Inventory Update'' df)) \<and>
         (''Warranty Expiration'' \<in> set (columns df) \<longrightarrow>
            column ''Warranty Expiration'' df' =
              map (parse lib (column ''Warranty Expiration'' df)) (column ''Warranty Expiration'' df))"
proof -
  have labels: "map fst (rows df') = map fst (rows df)"
    unfolding enrich_rows[OF assms] by (simp add: case_prod_unfold comp_def)
  have others: "column c df' = column c df"
    if "c \<notin> set [''Department'', ''Last Inventory Update'', ''Days Since Update'',
                    ''Check-In Status'', ''Warranty Expiration'', ''Days Until Expiration'',
                    ''Warranty Status'']" for c
    using that unfolding column_def enrich_rows[OF assms]
    by (simp add: case_prod_unfold comp_def Let_def enrich_row_def)
  have liu: "column ''Last Inventory Update'' df' =
      map (parse lib (column ''Last Inventory Update'' df)) (column ''Last Inventory Update'' df)"
    if "''Last Inventory Update'' \<in> set (columns df)"
    using that unfolding enrich_rows[OF assms] column_def [of _ df']
    by (simp add: case_prod_unfold comp_def Let_def column_def enrich_row_def)
  have we: "column ''Warranty Expiration'' df' =
      map (parse lib (column ''Warranty Expiration'' df)) (column ''Warranty Expiration'' df)"
    if "''Warranty Expiration'' \<in> set (columns df)"
    using that unfolding enrich_rows[OF assms] column_def [of _ df']
    by (simp add: case_prod_unfold comp_def Let_def column_def enrich_row_def)
  from labels enrich_columns_mono[OF assms] others liu we show ?thesis
    by blast
qed

text \<open>On the worked batch.\<close>

theorem enrich_frame_witness:
  "enrich sample_pandas sample_now sample_now sample = Inr enriched_sample \<and>
   map fst (rows enriched_sample) = map fst (rows sample) \<and>
   prefix (columns sample) (columns enriched_sample) \<and>
   column ''Computer Name'' enriched_sample = column ''Computer Name'' sample \<and>
   column ''Managed'' enriched_sample = column ''Managed'' sample \<and>
   column ''Last Inventory Update'' sample = [Str ''2024-01-01'', Str ''soon'', NaN] \<and>
   column ''Last Inventory Update'' enriched_sample = [Stamp new_year, NaT, NaT]"
proof -
  have p: "map (parse sample_pandas col) [Str ''2024-01-01'', Str ''soon'', NaN] = [Stamp new_year, NaT, NaT]" for col
    by (simp add: parse_def sample_pandas_def)
  have l: "column ''Last Inventory Update'' sample = [Str ''2024-01-01'', Str ''soon'', NaN]"
    by (simp add: column_def sample_def)
  show ?thesis
    using enrich_sample enrich_frame [OF enrich_sample] sample_columns(2) p l by simp
qed

text \<open>
  As first stated, the raw date values would pass through unchanged. A record whose last
  inventory update reads "soon" has \<open>NaT\<close> in that field after enrichment.
\<close>

theorem raw_date_counterexample:
  "column ''Last Inventory Update''
     \<lparr>columns = [''Last Inventory Update''],
      rows = [(0, (\<lambda>c. NaN)(''Last Inventory Update'' := Str ''soon''))]\<rparr> = [Str ''soon''] \<and>
   map_sum id (column ''Last Inventory Update'')
     (enrich sample_pandas sample_now sample_now
        \<lparr>columns = [''Last Inventory Update''],
         rows = [(0, (\<lambda>c. NaN)(''Last Inventory Update'' := Str ''soon''))]\<rparr>)
   = Inr [NaT]"
  by (simp add: enrich_def add_department_def warranty_prep_def check_in_prep_def subtraction_def
      assign_def column_def parse_def sample_pandas_def)

text \<open>
  C7. On a table with a \<^verbatim>\<open>Managed\<close> column, the filters with "Unmanaged" picked (and nothing
  else picked) select exactly the records whose \<^verbatim>\<open>Managed\<close> value is null or is the text
  "Unmanaged", in their order.
\<close>

theorem unmanaged_filter:
  assumes "''Managed'' \<in> set (columns df)"
  shows "apply_filters lib df (Str ''All'') (Str ''Unmanaged'') [] (Str ''All'') =
           Inr (df\<lparr>rows := filter (\<lambda>(i, r). isna (r ''Managed'') \<or> r ''Managed'' = Str ''Unmanaged'')
                                (rows df)\<rparr>)"
  using assms
  by (simp add: apply_filters_def filter_department_def filter_managed_def filter_search_def
      filter_os_def keep_def eq_Str)

text \<open>On the worked batch: device 0 is managed and is left out.\<close>

theorem unmanaged_filter_witness:
  "''Managed'' \<in> set (columns enriched_sample) \<and>
   column ''Managed'' enriched_sample = [Str ''Managed'', Str ''Unmanaged'', NaN] \<and>
   map_sum id (\<lambda>d. (map fst (rows d), column ''Managed'' d))
     (apply_filters sample_pandas enriched_sample (Str ''All'') (Str ''Unmanaged'') [] (Str ''All'')) =
     Inr ([1, 2], [Str ''Unmanaged'', NaN])"
proof -
  have c: "''Managed'' \<in> set (columns enriched_sample)"
    by (simp add: enriched_sample_def)
  show ?thesis
    using c unmanaged_filter [OF c, of sample_pandas]
    by (simp add: enriched_sample_def column_def)
qed

text \<open>
  C8. With "All" picked in every box and an empty search text the filters return the
  table as it is, on both pages.
\<close>

theorem all_filter:
  "apply_filters lib df (Str ''All'') (Str ''All'') [] (Str ''All'') = Inr df \<and>
   warranty_filter (Str ''All'') df = df"
  by (simp add: apply_filters_def filter_department_def filter_managed_def filter_search_def
      filter_os_def warranty_filter_def)

text \<open>
  C9. The search is said to look at field values only. The text searched is pandas' print
  of the row, which also holds the column names and the closing line with the row label
  and the dtype. An upload of the one-device export reaches the Inventory page with the
  fields "PRO-01", "Managed" and "PRO"; none of them contains "dtype", and yet the search
  text "dtype" selects the record. (A text found nowhere in the print, "zzz", selects
  nothing.)
\<close>

theorem search_hits_footer:
  "prepare lib now_inv now_warr [Some one_device] = Inr (Some one_device_enriched) \<and>
   map (\<lambda>(i, r). map r (columns one_device_enriched)) (rows one_device_enriched) =
     [[Str ''PRO-01'', Str ''Managed'', Str ''PRO'']] \<and>
   list_all (\<lambda>v. \<not> sublist (lower ''dtype'') (lower v)) [''PRO-01'', ''Managed'', ''PRO''] \<and>
   map_sum id (\<lambda>results. map (\<lambda>(i, r). map r (columns results)) (rows results))
     (inventory lib one_device_enriched ''dtype'' 0 0 0)
     = Inr [[Str ''PRO-01'', Str ''Managed'', Str ''PRO'']] \<and>
   map_sum id (\<lambda>results. map (\<lambda>(i, r). map r (columns results)) (rows results))
     (inventory lib one_device_enriched ''zzz'' 0 0 0) = Inr []"
proof -
  have hit: "search_hit lib ''dtype'' (columns one_device_enriched) ir"
    if "ir \<in> set (rows one_device_enriched)" for ir
    using that
    by (simp add: one_device_enriched_def search_hit_def str_row_def plain_def printable_def
        series_text_def lower_def lower_char_def ljust_def rjust_def digit_def sublist_Cons_right)
  have miss: "\<not> search_hit lib ''zzz'' (columns one_device_enriched) ir"
    if "ir \<in> set (rows one_device_enriched)" for ir
    using that
    by (simp add: one_device_enriched_def search_hit_def str_row_def plain_def printable_def
        series_text_def lower_def lower_char_def ljust_def rjust_def digit_def sublist_Cons_right)
  have boxes: "dept_options one_device_enriched = Inr [Str ''All'', Str ''PRO'']"
    "managed_options one_device_enriched = Inr [Str ''All'', Str ''Managed'', Str ''Unmanaged'']"
    "os_options one_device_enriched = Inr [Str ''All'']"
    by (simp_all add: dept_options_def managed_options_def os_options_def unique_values_def
        sorted_values_def column_def one_device_enriched_def)
  have rows1: "rows one_device_enriched \<noteq> []"
    by (simp add: one_device_enriched_def)
  have "inventory lib one_device_enriched ''dtype'' 0 0 0 = Inr one_device_enriched"
    using hit rows1
    by (simp add: inventory_def boxes selectbox_def apply_filters_def filter_department_def
        filter_managed_def filter_search_def filter_os_def keep_def)
  moreover have "inventory lib one_device_enriched ''zzz'' 0 0 0 =
      Inr (one_device_enriched\<lparr>rows := []\<rparr>)"
    using miss rows1
    by (simp add: inventory_def boxes selectbox_def apply_filters_def filter_department_def
        filter_managed_def filter_search_def filter_os_def keep_def filter_empty_conv)
  moreover have "map (\<lambda>(i, r). map r (columns one_device_enriched)) (rows one_device_enriched) =
     [[Str ''PRO-01'', Str ''Managed'', Str ''PRO'']]"
    by (simp add: one_device_enriched_def)
  moreover have "list_all (\<lambda>v. \<not> sublist (lower ''dtype'') (lower v)) [''PRO-01'', ''Managed'', ''PRO'']"
    by (simp add: lower_def lower_char_def sublist_Cons_right)
  ultimately show ?thesis
    using prepare_one_device by simp
qed




section \<open>Further properties of the two stages\<close>

text \<open>
  The managed filter, the operating system filter and the Warranty page's department
  filter leave the table as it is when their column is absent, whatever is picked.
\<close>

theorem guarded_filters_skip:
  "(''Managed'' \<notin> set (columns df) \<longrightarrow> filter_managed selected_managed df = df) \<and>
   (''Operating System'' \<notin> set (columns df) \<longrightarrow> filter_os selected_os df = df) \<and>
   (''Department'' \<notin> set (columns df) \<longrightarrow> warranty_filter selected_dept_w df = df) \<and>
   (''Managed'' \<notin> set (columns df) \<and> ''Operating System'' \<notin> set (columns df) \<longrightarrow>
      apply_filters lib df (Str ''All'') selected_managed [] selected_os = Inr df)"
  by (simp add: filter_managed_def filter_os_def warranty_filter_def apply_filters_def
      filter_department_def filter_search_def)

text \<open>On a table with the single column \<^verbatim>\<open>Serial Number\<close>.\<close>

theorem guarded_filters_skip_witness:
  "''Managed'' \<notin> set (columns \<lparr>columns = [''Serial Number''], rows = []\<rparr>) \<and>
   ''Operating System'' \<notin> set (columns \<lparr>columns = [''Serial Number''], rows = []\<rparr>) \<and>
   ''Department'' \<notin> set (columns \<lparr>columns = [''Serial Number''], rows = []\<rparr>) \<and>
   filter_managed (Str ''Unmanaged'') \<lparr>columns = [''Serial Number''], rows = []\<rparr>
     = \<lparr>columns = [''Serial Number''], rows = []\<rparr> \<and>
   filter_os (Str ''macOS'') \<lparr>columns = [''Serial Number''], rows = []\<rparr>
     = \<lparr>columns = [''Serial Number''], rows = []\<rparr> \<and>
   warranty_filter (Str ''PRO'') \<lparr>columns = [''Serial Number''], rows = []\<rparr>
     = \<lparr>columns = [''Serial Number''], rows = []\<rparr> \<and>
   apply_filters sample_pandas \<lparr>columns = [''Serial Number''], rows = []\<rparr>
     (Str ''All'') (Str ''Unmanaged'') [] (Str ''macOS'') = Inr \<lparr>columns = [''Serial Number''], rows = []\<rparr>"
  using guarded_filters_skip [of "\<lparr>columns = [''Serial Number''], rows = []\<rparr>"
      "Str ''Unmanaged''" "Str ''macOS''" "Str ''PRO''" sample_pandas]
  by simp

text \<open>After enrichment every department is null or one of the five codes.\<close>

theorem department_closed:
  assumes "''Computer Name'' \<in> set (columns df)"
    and "enrich lib now_inv now_warr df = Inr df'"
  shows "list_all (\<lambda>c. c = NaN \<or> c \<in> Str ` set codes) (column ''Department'' df')"
proof -
  have "str_extract c = NaN \<or> str_extract c \<in> Str ` set codes" for c
    by (cases "\<exists>k rest. k \<in> set codes \<and> c = Str (k @ rest)")
       (auto simp: str_extract_code str_extract_null)
  then show ?thesis
    unfolding column_def enrich_rows[OF assms(2)] using assms(1)
    by (simp add: list_all_iff case_prod_unfold Let_def enrich_row_def)
qed

text \<open>On the worked batch.\<close>

theorem department_closed_witness:
  "''Computer Name'' \<in> set (columns sample) \<and>
   enrich sample_pandas sample_now sample_now sample = Inr enriched_sample \<and>
   column ''Department'' enriched_sample = [Str ''PRO'', Str ''STU'', NaN] \<and>
   list_all (\<lambda>c. c = NaN \<or> c \<in> Str ` set codes) (column ''Department'' enriched_sample)"
  using sample_columns(1) enrich_sample department_closed [OF sample_columns(1) enrich_sample]
  by (simp add: enriched_sample_def column_def)

text \<open>
  A record with a parsed last inventory update is "Checked in (<30 days)" exactly when
  its day count is below 30, and "Not checked in (30+ days)" exactly when it is not; the
  day count is the time since the update in whole days, rounded down.
\<close>

theorem checked_in_iff:
  assumes "''Last Inventory Update'' \<in> set (columns df)"
    and "enrich lib now_inv now_warr df = Inr df'"
  shows "list_all (\<lambda>(i, r'). \<forall>t. r' ''Last Inventory Update'' = Stamp t \<longrightarrow>
            r' ''Days Since Update'' = Num ((now_inv - t) div day_ns) \<and>
            (r' ''Check-In Status'' = Str ''Checked in (<30 days)'' \<longleftrightarrow> (now_inv - t) div day_ns < 30) \<and>
            (r' ''Check-In Status'' = Str ''Not checked in (30+ days)'' \<longleftrightarrow> (now_inv - t) div day_ns \<ge> 30))
          (rows df')"
proof -
  have "list_all (\<lambda>(i, r'). r' ''Days Since Update'' = days (Stamp now_inv) (r' ''Last Inventory Update'') \<and>
            r' ''Check-In Status'' = Str (check_in_status (r' ''Days Since Update'')))
          (rows df')"
    unfolding enrich_rows[OF assms(2)] using assms(1)
    by (simp add: list_all_iff Let_def case_prod_unfold enrich_row_def)
  then show ?thesis
    by (rule list.pred_mono_strong) (auto simp: check_in_status_def split: if_splits)
qed

text \<open>On the worked batch: device 0 was updated ten days before the clock reading.\<close>

theorem checked_in_iff_witness:
  "''Last Inventory Update'' \<in> set (columns sample) \<and>
   enrich sample_pandas sample_now sample_now sample = Inr enriched_sample \<and>
   map (\<lambda>(i, r'). (r' ''Last Inventory Update'', r' ''Days Since Update'', r' ''Check-In Status''))
     (rows enriched_sample) =
     [(Stamp new_year, Num 10, Str ''Checked in (<30 days)''),
      (NaT, NaN, Str ''Not checked in (30+ days)''),
      (NaT, NaN, Str ''Not checked in (30+ days)'')] \<and>
   list_all (\<lambda>(i, r'). \<forall>t. r' ''Last Inventory Update'' = Stamp t \<longrightarrow>
            r' ''Days Since Update'' = Num ((sample_now - t) div day_ns) \<and>
            (r' ''Check-In Status'' = Str ''Checked in (<30 days)'' \<longleftrightarrow> (sample_now - t) div day_ns < 30) \<and>
            (r' ''Check-In Status'' = Str ''Not checked in (30+ days)'' \<longleftrightarrow> (sample_now - t) div day_ns \<ge> 30))
          (rows enriched_sample)"
  using sample_columns(2) enrich_sample checked_in_iff [OF sample_columns(2) enrich_sample]
  by (simp add: enriched_sample_def)

text \<open>
  Whatever is picked, the filters of the Inventory page return rows of the table in the
  order of the table.
\<close>

theorem filters_keep_order:
  assumes "apply_filters lib df selected_dept selected_managed search_term selected_os = Inr results"
  shows "subseq (rows results) (rows df)"
proof -
  from assms obtain r1 where r1: "filter_department selected_dept df = Inr r1"
    and res: "results = filter_os selected_os (filter_search lib search_term (filter_managed selected_managed r1))"
    by (auto simp: apply_filters_def split: sum.splits)
  have s1: "subseq (rows r1) (rows df)"
    using r1 by (auto simp: filter_department_def subseq_keep split: if_splits)
  have s2: "subseq (rows (filter_managed m d)) (rows d)" for m d
    by (simp add: filter_managed_def subseq_keep)
  have s3: "subseq (rows (filter_search lib s d)) (rows d)" for s d
    by (simp add: filter_search_def subseq_keep)
  have s4: "subseq (rows (filter_os s d)) (rows d)" for s d
    by (simp add: filter_os_def subseq_keep)
  show ?thesis
    unfolding res using s4 s3 s2 s1 by (meson subseq_order.order_trans)
qed

text \<open>On the worked batch with "Unmanaged" picked.\<close>

theorem filters_keep_order_witness:
  "map_sum id (\<lambda>d. map fst (rows d))
     (apply_filters sample_pandas enriched_sample (Str ''All'') (Str ''Unmanaged'') [] (Str ''All''))
     = Inr [1, 2] \<and>
   map fst (rows enriched_sample) = [0, 1, 2] \<and>
   (\<exists>results. apply_filters sample_pandas enriched_sample (Str ''All'') (Str ''Unmanaged'') [] (Str ''All'')
        = Inr results \<and> subseq (rows results) (rows enriched_sample))"
proof -
  have c: "''Managed'' \<in> set (columns enriched_sample)"
    by (simp add: enriched_sample_def)
  have e: "apply_filters sample_pandas enriched_sample (Str ''All'') (Str ''Unmanaged'') [] (Str ''All'') =
    Inr (enriched_sample\<lparr>rows := filter (\<lambda>(i, r). isna (r ''Managed'') \<or> r ''Managed'' = Str ''Unmanaged'')
                                (rows enriched_sample)\<rparr>)"
    using c
    by (simp add: apply_filters_def filter_department_def filter_managed_def filter_search_def
      filter_os_def keep_def eq_Str)
  have v: "map_sum id (\<lambda>d. map fst (rows d))
     (apply_filters sample_pandas enriched_sample (Str ''All'') (Str ''Unmanaged'') [] (Str ''All''))
     = Inr [1, 2]" "map fst (rows enriched_sample) = [0, 1, 2]"
    unfolding e by (simp_all add: enriched_sample_def)
  show ?thesis
    using v e filters_keep_order [OF e] by blast
qed

text \<open>
  Enrichment is idempotent: run again on its own result, with the same clock readings
  and a library that attaches no time zone to the two date columns of that result, it
  returns that result.
\<close>

theorem enrich_idempotent:
  assumes "enrich lib now_inv now_warr df = Inr df'"
    and "\<not> tz_aware lib (column ''Last Inventory Update'' df')"
    and "\<not> tz_aware lib (column ''Warranty Expiration'' df')"
  shows "enrich lib now_inv now_warr df' = Inr df'"
proof -
  have mem: "c \<in> set (columns df') \<longleftrightarrow> c \<in> set (columns df)"
    if "c \<in> set [''Computer Name'', ''Last Inventory Update'', ''Warranty Expiration'']" for c
    using that unfolding enrich_columns[OF assms(1)] by (auto simp: Let_def)
  have first: "\<exists>d. enrich lib now_inv now_warr df = Inr d"
    using assms(1) by blast
  have acc: "str_accessor ''Computer Name'' df'" if "''Computer Name'' \<in> set (columns df)"
  proof -
    from that first have "str_accessor ''Computer Name'' df"
      unfolding enrich_returns by blast
    moreover have "rows df' = [] \<longleftrightarrow> rows df = []"
      unfolding enrich_rows[OF assms(1)] by simp
    ultimately show ?thesis
      using enrich_parsed_columns(3)[OF assms(1)] by (simp add: str_accessor_def)
  qed
  have again: "parse lib col' \<circ> parse lib col = parse lib col" for col col'
    by (simp add: fun_eq_iff parse_parse)
  have u: "\<not> tz_aware lib (column ''Last Inventory Update'' df') \<and>
      \<not> list_ex (overflows now_inv)
          (map (parse lib (column ''Last Inventory Update'' df')) (column ''Last Inventory Update'' df'))"
    if "''Last Inventory Update'' \<in> set (columns df)"
    using that assms(2) first [unfolded enrich_returns]
    by (simp add: enrich_parsed_columns(1)[OF assms(1) that] again)
  have w: "\<not> tz_aware lib (column ''Warranty Expiration'' df') \<and>
      \<not> list_ex (overflows now_warr)
          (map (parse lib (column ''Warranty Expiration'' df')) (column ''Warranty Expiration'' df'))"
    if "''Warranty Expiration'' \<in> set (columns df)"
    using that assms(3) first [unfolded enrich_returns]
    by (simp add: enrich_parsed_columns(2)[OF assms(1) that] again)
  have "\<exists>d. enrich lib now_inv now_warr df' = Inr d"
    unfolding enrich_returns [of lib now_inv now_warr df']
    using acc u w by (simp add: mem)
  then obtain df'' where e2: "enrich lib now_inv now_warr df' = Inr df''"
    by blast
  have "rows df'' = rows df'"
    unfolding enrich_rows[OF e2] unfolding enrich_rows[OF assms(1)]
    by (simp add: case_prod_unfold comp_def enrich_row_twice mem)
  moreover have "columns df'' = columns df'"
    using assms(1) e2 by (rule enrich_columns_again)
  ultimately have "df'' = df'"
    by simp
  with e2 show ?thesis
    by simp
qed

text \<open>On the worked batch.\<close>

theorem enrich_idempotent_witness:
  "enrich sample_pandas sample_now sample_now sample = Inr enriched_sample \<and>
   \<not> tz_aware sample_pandas (column ''Last Inventory Update'' enriched_sample) \<and>
   \<not> tz_aware sample_pandas (column ''Warranty Expiration'' enriched_sample) \<and>
   enrich sample_pandas sample_now sample_now enriched_sample = Inr enriched_sample"
proof -
  have z: "\<not> tz_aware sample_pandas col" for col
    by (simp add: sample_pandas_def)
  show ?thesis
    using enrich_sample z enrich_idempotent [OF enrich_sample z z] by simp
qed

end
